theory Spec2Isabelle
  imports Main "HOL-Library.Sublist"
begin

section \<open>JavaScript values used by the server\<close>

text \<open>
  The server in \<^verbatim>\<open>src/avalanche-cli-mcp-server.ts\<close> builds every payload as an object
  literal of strings, booleans, arrays and nested objects and renders it with
  \<^verbatim>\<open>JSON.stringify(value, null, 2)\<close>. Strings are lists of characters; object
  literals keep the order of their keys, so an object is a list of pairs.
\<close>

datatype json =
    JNull
  | JBool bool
  | JString string
  | JArray "json list"
  | JObject "(string \<times> json) list"

definition dquote :: char where
  "dquote = CHR 0x22"

definition squote :: char where
  "squote = CHR 0x27"

definition backslash :: char where
  "backslash = CHR 0x5C"

definition newline :: char where
  "newline = CHR 0x0A"

definition hex_digit :: "nat \<Rightarrow> char" where
  "hex_digit n = (''0123456789abcdef'') ! (n mod 16)"

text \<open>
  \<^verbatim>\<open>QuoteJSONString\<close> of ECMA-262: the double quote and the backslash are escaped,
  the five control characters with a short form use it, every other character below
  0x20 becomes \<^verbatim>\<open>\u00XX\<close>, and everything else is copied.
\<close>

definition json_escape_char :: "char \<Rightarrow> string" where
  "json_escape_char c =
     (if c = dquote then [backslash, dquote]
      else if c = backslash then [backslash, backslash]
      else if c = CHR 0x08 then [backslash, CHR ''b'']
      else if c = CHR 0x09 then [backslash, CHR ''t'']
      else if c = CHR 0x0A then [backslash, CHR ''n'']
      else if c = CHR 0x0C then [backslash, CHR ''f'']
      else if c = CHR 0x0D then [backslash, CHR ''r'']
      else if of_char c < (32::nat)
        then [backslash, CHR ''u'', CHR ''0'', CHR ''0'',
              hex_digit (of_char c div 16), hex_digit (of_char c)]
      else [c])"

definition json_quote :: "string \<Rightarrow> string" where
  "json_quote s = dquote # concat (map json_escape_char s) @ [dquote]"

definition indent :: "nat \<Rightarrow> string" where
  "indent n = replicate (2 * n) CHR '' ''"

fun join_with :: "string \<Rightarrow> string list \<Rightarrow> string" where
  "join_with sep [] = []"
| "join_with sep [x] = x"
| "join_with sep (x # y # ys) = x @ sep @ join_with sep (y # ys)"

text \<open>
  \<^verbatim>\<open>JSON.stringify(v, null, 2)\<close> at nesting depth \<open>n\<close>: an empty array or object is
  written closed on one line; otherwise every element goes on a line of its own,
  indented by two spaces per level.
\<close>

fun stringify_at :: "nat \<Rightarrow> json \<Rightarrow> string"
  and stringify_member :: "nat \<Rightarrow> string \<times> json \<Rightarrow> string" where
  "stringify_at n JNull = ''null''"
| "stringify_at n (JBool b) = (if b then ''true'' else ''false'')"
| "stringify_at n (JString s) = json_quote s"
| "stringify_at n (JArray xs) =
     (if xs = [] then ''[]''
      else ''['' @ [newline] @ indent (Suc n)
           @ join_with ('','' @ [newline] @ indent (Suc n)) (map (stringify_at (Suc n)) xs)
           @ [newline] @ indent n @ '']'')"
| "stringify_at n (JObject kvs) =
     (if kvs = [] then ''{}''
      else ''{'' @ [newline] @ indent (Suc n)
           @ join_with ('','' @ [newline] @ indent (Suc n)) (map (stringify_member (Suc n)) kvs)
           @ [newline] @ indent n @ ''}'')"
| "stringify_member n (k, v) = json_quote k @ '': '' @ stringify_at n v"

definition JSON_stringify :: "json \<Rightarrow> string" where
  "JSON_stringify v = stringify_at 0 v"


definition text_includes :: "string \<Rightarrow> string \<Rightarrow> bool" where
  \<comment> \<open>\<^verbatim>\<open>s.includes(t)\<close>: \<open>t\<close> occurs in \<open>s\<close> as a contiguous run.\<close>
  "text_includes s t = sublist t s"

definition js_space :: "char \<Rightarrow> bool" where
  \<comment> \<open>the white space and line terminators among the characters below 256\<close>
  "js_space c = (c = CHR '' '' \<or> c = CHR 0x09 \<or> c = CHR 0x0A \<or> c = CHR 0x0B
                 \<or> c = CHR 0x0C \<or> c = CHR 0x0D \<or> c = CHR 0xA0)"

definition trim :: "string \<Rightarrow> string" where
  "trim s = rev (dropWhile js_space (rev (dropWhile js_space s)))"

section \<open>Errors\<close>

datatype error_code = MethodNotFound | InternalError

fun error_code_number :: "error_code \<Rightarrow> string" where
  "error_code_number MethodNotFound = ''-32601''"
| "error_code_number InternalError = ''-32603''"

text \<open>
  What the program throws: a plain \<^verbatim>\<open>Error\<close> (also the rejections of the file-system
  and process calls), the \<^verbatim>\<open>TypeError\<close> of Node's argument validation, and the
  protocol's \<^verbatim>\<open>McpError\<close>, whose constructor stores the code and prefixes the message.
\<close>

datatype js_error =
    Error string
  | TypeError string
  | McpError error_code string

fun error_message :: "js_error \<Rightarrow> string" where
  "error_message (Error m) = m"
| "error_message (TypeError m) = m"
| "error_message (McpError c m) = ''MCP error '' @ error_code_number c @ '': '' @ m"

section \<open>The host: platform, file system, processes\<close>

text \<open>
  A path is the list of its segments below the root: the home directory is an absolute,
  normalised path, and the program only joins fixed relative names onto it.
\<close>

type_synonym path = "string list"

definition show_path :: "path \<Rightarrow> string" where
  "show_path p = (if p = [] then ''/'' else concat (map (\<lambda>s. CHR ''/'' # s) p))"

fun split_slash :: "string \<Rightarrow> string list" where
  "split_slash [] = [[]]"
| "split_slash (c # cs) =
     (if c = CHR ''/'' then [] # split_slash cs
      else (case split_slash cs of [] \<Rightarrow> [[c]] | s # ss \<Rightarrow> (c # s) # ss))"

definition path_join :: "path \<Rightarrow> string \<Rightarrow> path" where
  \<comment> \<open>\<^verbatim>\<open>path.join(dir, rel)\<close> for a relative name made of plain segments\<close>
  "path_join dir rel = dir @ filter (\<lambda>s. s \<noteq> []) (split_slash rel)"

definition path_basename :: "string \<Rightarrow> string" where
  \<comment> \<open>\<^verbatim>\<open>path.basename\<close>: trailing slashes are dropped, then the part after the last slash\<close>
  "path_basename p =
     rev (takeWhile (\<lambda>c. c \<noteq> CHR ''/'') (dropWhile (\<lambda>c. c = CHR ''/'') (rev p)))"

datatype node = File string | Dir

type_synonym filesystem = "path \<Rightarrow> node option"

datatype effect =
    Exec string
  | Access path
  | Mkdir path
  | ReadFile path
  | AppendFile path string
  | Unlink path

text \<open>
  The world a handler runs in: the file system and the log of every call the handler has
  made to the file system and to the shell, in order. A path holds a file with its
  content, or a directory, or nothing.
\<close>

record world =
  fs :: filesystem
  trace :: "effect list"

text \<open>
  The host is what the program asks Node for: \<^verbatim>\<open>os.platform()\<close>, \<^verbatim>\<open>os.arch()\<close>,
  \<^verbatim>\<open>os.homedir()\<close>, \<^verbatim>\<open>process.env.SHELL\<close>, and the shell behind \<^verbatim>\<open>execAsync\<close>: an
  opaque program that, given the command and the file system, either fails with the
  message of its rejection or returns the captured standard output and standard error,
  and leaves a file system behind. The host also holds what the process is permitted to
  do: \<open>read_denied p\<close> says that a file at \<open>p\<close> cannot be opened for reading, and
  \<open>write_denied p\<close> that a file at \<open>p\<close> cannot be opened for writing, or, for a
  directory, that no entry can be created in it. The handlers that read or write files
  run no command, so these permissions stay as they are while such a handler runs.
\<close>

record host =
  os_platform :: string
  os_arch :: string
  os_homedir :: path
  env_SHELL :: "string option"
  shell_run :: "string \<Rightarrow> filesystem \<Rightarrow> (string + string \<times> string) \<times> filesystem"
  read_denied :: "path \<Rightarrow> bool"
  write_denied :: "path \<Rightarrow> bool"

type_synonym 'a io = "world \<Rightarrow> (js_error + 'a) \<times> world"

definition ret :: "'a \<Rightarrow> 'a io" where
  "ret x w = (Inr x, w)"

definition throw :: "js_error \<Rightarrow> 'a io" where
  "throw e w = (Inl e, w)"

definition bind :: "'a io \<Rightarrow> ('a \<Rightarrow> 'b io) \<Rightarrow> 'b io" where
  "bind m f w = (case m w of (Inl e, w') \<Rightarrow> (Inl e, w') | (Inr x, w') \<Rightarrow> f x w')"

definition try_catch :: "'a io \<Rightarrow> (js_error \<Rightarrow> 'a io) \<Rightarrow> 'a io" where
  "try_catch m h w = (case m w of (Inl e, w') \<Rightarrow> h e w' | (Inr x, w') \<Rightarrow> (Inr x, w'))"

definition node_at :: "filesystem \<Rightarrow> path \<Rightarrow> node option" where
  "node_at f p = (if p = [] then Some Dir else f p)"

definition is_file :: "filesystem \<Rightarrow> path \<Rightarrow> bool" where
  "is_file f p = (case node_at f p of Some (File c) \<Rightarrow> True | _ \<Rightarrow> False)"

definition fs_error :: "string \<Rightarrow> string \<Rightarrow> string \<Rightarrow> path \<Rightarrow> js_error" where
  \<comment> \<open>the message of a Node file-system error: code, description, system call, path\<close>
  "fs_error code desc syscall p =
     Error (code @ '': '' @ desc @ '', '' @ syscall @ '' '' @ [squote] @ show_path p @ [squote])"

definition log :: "effect \<Rightarrow> world \<Rightarrow> world" where
  "log e w = w\<lparr>trace := trace w @ [e]\<rparr>"

definition execAsync :: "host \<Rightarrow> string \<Rightarrow> (string \<times> string) io" where
  "execAsync h cmd w =
     (case shell_run h cmd (fs w) of
        (Inl msg, f') \<Rightarrow> (Inl (Error msg), log (Exec cmd) (w\<lparr>fs := f'\<rparr>))
      | (Inr out, f') \<Rightarrow> (Inr out, log (Exec cmd) (w\<lparr>fs := f'\<rparr>)))"

definition fs_access :: "path \<Rightarrow> unit io" where
  "fs_access p w =
     (case node_at (fs w) p of
        None \<Rightarrow> (Inl (fs_error ''ENOENT'' ''no such file or directory'' ''access'' p),
                 log (Access p) w)
      | Some n \<Rightarrow> (Inr (), log (Access p) w))"

definition fs_mkdir_recursive :: "path \<Rightarrow> unit io" where
  "fs_mkdir_recursive p w =
     (if is_file (fs w) p
        then (Inl (fs_error ''EEXIST'' ''file already exists'' ''mkdir'' p), log (Mkdir p) w)
      else if list_ex (is_file (fs w)) (prefixes p)
        then (Inl (fs_error ''ENOTDIR'' ''not a directory'' ''mkdir'' p), log (Mkdir p) w)
      else (Inr (),
            log (Mkdir p) (w\<lparr>fs := (\<lambda>q. if q \<noteq> [] \<and> prefix q p then Some Dir else fs w q)\<rparr>)))"

definition fs_readFile :: "host \<Rightarrow> path \<Rightarrow> string io" where
  "fs_readFile h p w =
     (case node_at (fs w) p of
        None \<Rightarrow> (Inl (fs_error ''ENOENT'' ''no such file or directory'' ''open'' p),
                 log (ReadFile p) w)
      | Some Dir \<Rightarrow> (Inl (Error ''EISDIR: illegal operation on a directory, read''),
                     log (ReadFile p) w)
      | Some (File c) \<Rightarrow>
          (if read_denied h p
           then (Inl (fs_error ''EACCES'' ''permission denied'' ''open'' p), log (ReadFile p) w)
           else (Inr c, log (ReadFile p) w)))"

definition fs_appendFile :: "host \<Rightarrow> path \<Rightarrow> string \<Rightarrow> unit io" where
  "fs_appendFile h p d w =
     (case node_at (fs w) p of
        Some (File c) \<Rightarrow>
          (if write_denied h p
           then (Inl (fs_error ''EACCES'' ''permission denied'' ''open'' p),
                 log (AppendFile p d) w)
           else (Inr (), log (AppendFile p d) (w\<lparr>fs := (fs w)(p \<mapsto> File (c @ d))\<rparr>)))
      | Some Dir \<Rightarrow>
          (Inl (fs_error ''EISDIR'' ''illegal operation on a directory'' ''open'' p),
           log (AppendFile p d) w)
      | None \<Rightarrow>
          (case node_at (fs w) (butlast p) of
             Some Dir \<Rightarrow>
               (if write_denied h (butlast p)
                then (Inl (fs_error ''EACCES'' ''permission denied'' ''open'' p),
                      log (AppendFile p d) w)
                else (Inr (), log (AppendFile p d) (w\<lparr>fs := (fs w)(p \<mapsto> File d)\<rparr>)))
           | Some (File c) \<Rightarrow>
               (Inl (fs_error ''ENOTDIR'' ''not a directory'' ''open'' p), log (AppendFile p d) w)
           | None \<Rightarrow>
               (if list_ex (is_file (fs w)) (prefixes (butlast p))
                then (Inl (fs_error ''ENOTDIR'' ''not a directory'' ''open'' p),
                      log (AppendFile p d) w)
                else (Inl (fs_error ''ENOENT'' ''no such file or directory'' ''open'' p),
                      log (AppendFile p d) w))))"

definition fs_unlink :: "path \<Rightarrow> unit io" where
  "fs_unlink p w =
     (case node_at (fs w) p of
        Some (File c) \<Rightarrow> (Inr (), log (Unlink p) (w\<lparr>fs := (fs w)(p := None)\<rparr>))
      | Some Dir \<Rightarrow>
          (Inl (fs_error ''EISDIR'' ''illegal operation on a directory'' ''unlink'' p),
           log (Unlink p) w)
      | None \<Rightarrow>
          (Inl (fs_error ''ENOENT'' ''no such file or directory'' ''unlink'' p),
           log (Unlink p) w))"

section \<open>The tool handlers\<close>

text \<open>
  A handler answers with \<^verbatim>\<open>{ content: [{ type: "text", text: ... }] }\<close>.
\<close>

record content_item =
  ctype :: string
  ctext :: string

type_synonym tool_result = "content_item list"

definition text_result :: "string \<Rightarrow> tool_result" where
  "text_result t = [\<lparr>ctype = ''text'', ctext = t\<rparr>]"

definition failure_payload :: "js_error \<Rightarrow> tool_result" where
  \<comment> \<open>the \<^verbatim>\<open>catch (error)\<close> block shared by install, setup_path and update\<close>
  "failure_payload e =
     text_result (JSON_stringify (JObject [
       (''success'', JBool False),
       (''error'', JString (error_message e))]))"

definition installCommand :: string where
  "installCommand =
     ''curl -sSfL https://raw.githubusercontent.com/ava-labs/avalanche-cli/main/scripts/install.sh | sh -s''"

subsection \<open>check_compatibility\<close>

definition checkCompatibility :: "host \<Rightarrow> tool_result io" where
  "checkCompatibility h =
     (let platform = os_platform h;
          arch = os_arch h;
          isCompatible = (platform = ''linux'' \<or> platform = ''darwin'')
      in ret (text_result (JSON_stringify (JObject [
           (''compatible'', JBool isCompatible),
           (''platform'', JString platform),
           (''architecture'', JString arch),
           (''message'', JString
              (if isCompatible
               then ''Your system is compatible with Avalanche CLI''
               else ''Avalanche CLI currently supports Linux and macOS only. Windows is not supported.''))]))))"

subsection \<open>install_avalanche_cli\<close>

definition already_installed_text :: string where
  "already_installed_text =
     ''Avalanche CLI is already installed. Use '' @ [squote] @ ''force: true'' @ [squote]
       @ '' to reinstall or use the update tool.''"

definition install_success :: "string \<Rightarrow> string \<Rightarrow> tool_result" where
  "install_success out err =
     text_result (JSON_stringify (JObject [
       (''success'', JBool True),
       (''message'', JString ''Avalanche CLI installed successfully''),
       (''stdout'', JString out),
       (''stderr'', JString err),
       (''next_steps'', JArray [
          JString ''Add ~/bin to your PATH if not already done'',
          JString (''Run '' @ [squote] @ ''avalanche --version'' @ [squote]
                   @ '' to verify installation'')])]))"

text \<open>
  The body of the outer \<^verbatim>\<open>try\<close>. The probe \<^verbatim>\<open>which avalanche\<close> sits in a
  \<^verbatim>\<open>try\<close> of its own whose \<^verbatim>\<open>catch\<close> is empty: a resolved tool returns at once, a
  failed probe falls through to the installation.
\<close>

definition install_try :: "host \<Rightarrow> bool \<Rightarrow> tool_result io" where
  "install_try h force =
     (if os_platform h \<noteq> ''linux'' \<and> os_platform h \<noteq> ''darwin''
      then throw (Error ''Avalanche CLI is not supported on this platform. Only Linux and macOS are supported.'')
      else
        bind (if \<not> force
              then try_catch (bind (execAsync h ''which avalanche'') (\<lambda>_. ret True))
                             (\<lambda>_. ret False)
              else ret False)
          (\<lambda>found.
             if found then ret (text_result already_installed_text)
             else
               (let binDir = path_join (os_homedir h) ''bin'' in
                bind (try_catch (fs_access binDir) (\<lambda>_. fs_mkdir_recursive binDir))
                  (\<lambda>_. bind (execAsync h installCommand)
                    (\<lambda>(out, err). ret (install_success out err))))))"

definition installAvalancheCLI :: "host \<Rightarrow> bool \<Rightarrow> tool_result io" where
  "installAvalancheCLI h force =
     try_catch (install_try h force) (\<lambda>error. ret (failure_payload error))"

subsection \<open>check_installation\<close>

definition checkInstallation :: "host \<Rightarrow> tool_result io" where
  "checkInstallation h =
     try_catch
       (bind (execAsync h ''avalanche --version'')
          (\<lambda>(versionOutput, _). bind (execAsync h ''which avalanche'')
             (\<lambda>(whichOutput, _). ret (text_result (JSON_stringify (JObject [
                (''installed'', JBool True),
                (''version'', JString (trim versionOutput)),
                (''path'', JString (trim whichOutput))]))))))
       (\<lambda>error. ret (text_result (JSON_stringify (JObject [
          (''installed'', JBool False),
          (''error'', JString ''Avalanche CLI not found in PATH''),
          (''suggestion'', JString ''Run the install_avalanche_cli tool to install it'')]))))"

subsection \<open>setup_path\<close>

text \<open>
  \<^verbatim>\<open>shellConfigs\<close> is an object literal, and \<^verbatim>\<open>shellConfigs[shell]\<close> is a property
  read on it: the three keys of the literal are its own properties, and every name that
  \<^verbatim>\<open>Object.prototype\<close> defines is found through the prototype chain, where it is a
  function (or, for \<^verbatim>\<open>__proto__\<close>, the prototype object). Any other name reads as
  \<^verbatim>\<open>undefined\<close>.
\<close>

datatype js_prop =
    Undefined
  | StringValue string
  | FunctionValue string
  | ObjectValue string

definition shellConfigs :: "(string \<times> string) list" where
  "shellConfigs =
     [(''bash'', ''.bashrc''),
      (''zsh'', ''.zshrc''),
      (''fish'', ''.config/fish/config.fish'')]"

definition object_prototype :: "(string \<times> js_prop) list" where
  "object_prototype =
     [(''constructor'', FunctionValue ''Object''),
      (''__defineGetter__'', FunctionValue ''__defineGetter__''),
      (''__defineSetter__'', FunctionValue ''__defineSetter__''),
      (''hasOwnProperty'', FunctionValue ''hasOwnProperty''),
      (''__lookupGetter__'', FunctionValue ''__lookupGetter__''),
      (''__lookupSetter__'', FunctionValue ''__lookupSetter__''),
      (''isPrototypeOf'', FunctionValue ''isPrototypeOf''),
      (''propertyIsEnumerable'', FunctionValue ''propertyIsEnumerable''),
      (''toString'', FunctionValue ''toString''),
      (''valueOf'', FunctionValue ''valueOf''),
      (''__proto__'', ObjectValue ''Object''),
      (''toLocaleString'', FunctionValue ''toLocaleString'')]"

definition shellConfigs_get :: "string \<Rightarrow> js_prop" where
  "shellConfigs_get key =
     (case map_of shellConfigs key of
        Some f \<Rightarrow> StringValue f
      | None \<Rightarrow> (case map_of object_prototype key of Some v \<Rightarrow> v | None \<Rightarrow> Undefined))"

definition invalid_path_argument :: "js_prop \<Rightarrow> js_error" where
  \<comment> \<open>what \<^verbatim>\<open>path.join\<close> throws for an argument that is not a string\<close>
  "invalid_path_argument v =
     TypeError (''The '' @ [dquote] @ ''path'' @ [dquote]
       @ '' argument must be of type string. Received ''
       @ (case v of
            FunctionValue n \<Rightarrow> ''function '' @ n
          | ObjectValue n \<Rightarrow> ''an instance of '' @ n
          | StringValue s \<Rightarrow> ''type string''
          | Undefined \<Rightarrow> ''undefined''))"

definition unsupported_shell :: "string \<Rightarrow> tool_result" where
  "unsupported_shell shell =
     text_result (JSON_stringify (JObject [
       (''success'', JBool False),
       (''error'', JString (''Unsupported shell: '' @ shell)),
       (''supported_shells'', JArray (map (\<lambda>(k, v). JString k) shellConfigs))]))"

definition path_already_set :: "string \<Rightarrow> tool_result" where
  "path_already_set configPath =
     text_result (JSON_stringify (JObject [
       (''success'', JBool True),
       (''message'', JString ''PATH already contains ~/bin directory''),
       (''current_config'', JString configPath)]))"

definition path_added :: "string \<Rightarrow> string \<Rightarrow> tool_result" where
  "path_added configPath exportLine =
     text_result (JSON_stringify (JObject [
       (''success'', JBool True),
       (''message'', JString (''Added ~/bin to PATH in '' @ configPath)),
       (''instruction'', JString (''Restart your terminal or run '' @ [squote] @ ''source ''
            @ configPath @ [squote] @ '' to apply changes'')),
       (''added_line'', JString exportLine)]))"

definition default_shell :: "host \<Rightarrow> string" where
  \<comment> \<open>\<^verbatim>\<open>path.basename(process.env.SHELL || 'bash')\<close>\<close>
  "default_shell h =
     path_basename (case env_SHELL h of
                      Some e \<Rightarrow> if e \<noteq> [] then e else ''bash''
                    | None \<Rightarrow> ''bash'')"

definition detect_shell :: "host \<Rightarrow> string option \<Rightarrow> string" where
  \<comment> \<open>\<^verbatim>\<open>if (!shell) shell = ...\<close>: a missing and an empty string are both falsy\<close>
  "detect_shell h shell =
     (case shell of
        Some s \<Rightarrow> if s \<noteq> [] then s else default_shell h
      | None \<Rightarrow> default_shell h)"

definition export_line :: "string \<Rightarrow> string" where
  "export_line shell =
     (if shell = ''fish'' then ''set -gx PATH ~/bin $PATH'' else ''export PATH=~/bin:$PATH'')"

definition export_block :: "string \<Rightarrow> string" where
  "export_block exportLine =
     [newline] @ ''# Added by Avalanche CLI MCP Server'' @ [newline] @ exportLine @ [newline]"

definition setupPath :: "host \<Rightarrow> string option \<Rightarrow> tool_result io" where
  "setupPath h shell0 =
     (let homeDir = os_homedir h;
          binPath = show_path (path_join homeDir ''bin'');
          shell = detect_shell h shell0
      in case shellConfigs_get shell of
           Undefined \<Rightarrow> ret (unsupported_shell shell)
         | FunctionValue n \<Rightarrow> throw (invalid_path_argument (FunctionValue n))
         | ObjectValue n \<Rightarrow> throw (invalid_path_argument (ObjectValue n))
         | StringValue configFile \<Rightarrow>
             (let configPath = path_join homeDir configFile;
                  exportLine = export_line shell
              in try_catch
                   (bind (try_catch (fs_readFile h configPath) (\<lambda>_. ret []))
                      (\<lambda>configContent.
                         if text_includes configContent ''~/bin''
                            \<or> text_includes configContent binPath
                         then ret (path_already_set (show_path configPath))
                         else bind (fs_appendFile h configPath (export_block exportLine))
                                (\<lambda>_. ret (path_added (show_path configPath) exportLine))))
                   (\<lambda>error. ret (failure_payload error))))"

subsection \<open>get_installation_info\<close>

definition getInstallationInfo :: "tool_result io" where
  "getInstallationInfo =
     ret (text_result (JSON_stringify (JObject [
       (''title'', JString ''Avalanche CLI Installation Guide''),
       (''compatibility'', JObject [
          (''supported_os'', JArray [JString ''Linux'', JString ''macOS'']),
          (''unsupported_os'', JArray [JString ''Windows''])]),
       (''installation'', JObject [
          (''command'', JString installCommand),
          (''install_location'', JString ''~/bin/avalanche''),
          (''description'', JString ''Downloads and installs the latest binary release'')]),
       (''path_setup'', JObject [
          (''bash'', JString ''export PATH=~/bin:$PATH >> ~/.bashrc''),
          (''zsh'', JString ''export PATH=~/bin:$PATH >> ~/.zshrc''),
          (''fish'', JString ''set -gx PATH ~/bin $PATH >> ~/.config/fish/config.fish'')]),
       (''verification'', JObject [
          (''command'', JString ''avalanche --version''),
          (''description'', JString ''Check installation and version'')]),
       (''updating'', JObject [
          (''method'', JString ''Delete current binary and reinstall''),
          (''description'', JString ''No built-in update mechanism'')]),
       (''source_build'', JObject [
          (''repository'', JString ''https://github.com/ava-labs/avalanche-cli''),
          (''build_script'', JString ''./scripts/build.sh''),
          (''output_binary'', JString ''./bin/avalanche'')])])))"

subsection \<open>update_avalanche_cli\<close>

definition update_not_found :: tool_result where
  "update_not_found =
     text_result (JSON_stringify (JObject [
       (''success'', JBool False),
       (''error'', JString ''Avalanche CLI not found at ~/bin/avalanche''),
       (''suggestion'', JString ''Use install_avalanche_cli tool to install it first'')]))"

definition update_success :: "string \<Rightarrow> string \<Rightarrow> string \<Rightarrow> string \<Rightarrow> tool_result" where
  "update_success currentVersion newVersion out err =
     text_result (JSON_stringify (JObject [
       (''success'', JBool True),
       (''message'', JString ''Avalanche CLI updated successfully''),
       (''previous_version'', JString currentVersion),
       (''new_version'', JString newVersion),
       (''stdout'', JString out),
       (''stderr'', JString err)]))"

definition probe_version :: "host \<Rightarrow> string io" where
  \<comment> \<open>\<^verbatim>\<open>try { stdout.trim() of avalanche --version } catch { 'unknown' }\<close>\<close>
  "probe_version h =
     try_catch (bind (execAsync h ''avalanche --version'') (\<lambda>(out, _). ret (trim out)))
               (\<lambda>_. ret ''unknown'')"

definition update_try :: "host \<Rightarrow> tool_result io" where
  "update_try h =
     (let binPath = path_join (path_join (os_homedir h) ''bin'') ''avalanche'' in
      bind (try_catch (bind (fs_access binPath) (\<lambda>_. ret True)) (\<lambda>_. ret False))
        (\<lambda>present.
           if \<not> present then ret update_not_found
           else
             bind (probe_version h)
               (\<lambda>currentVersion. bind (fs_unlink binPath)
                 (\<lambda>_. bind (execAsync h installCommand)
                   (\<lambda>(out, err). bind (probe_version h)
                     (\<lambda>newVersion. ret (update_success currentVersion newVersion out err)))))))"

definition updateAvalancheCLI :: "host \<Rightarrow> tool_result io" where
  "updateAvalancheCLI h =
     try_catch (update_try h) (\<lambda>error. ret (failure_payload error))"

subsection \<open>build_from_source\<close>

definition build_steps :: "string option \<Rightarrow> string list" where
  \<comment> \<open>\<^verbatim>\<open>tag ? ... : ...\<close>: a missing tag and the empty string are both falsy\<close>
  "build_steps tag =
     [''Clone the repository: git clone https://github.com/ava-labs/avalanche-cli.git'',
      ''Navigate to the directory: cd avalanche-cli'',
      (case tag of
         Some t \<Rightarrow> if t \<noteq> [] then ''Checkout specific tag: git checkout '' @ t
                   else ''Checkout desired tag: git checkout <tag>''
       | None \<Rightarrow> ''Checkout desired tag: git checkout <tag>''),
      ''Build the binary: ./scripts/build.sh'',
      ''Binary will be available at: ./bin/avalanche'']"

definition build_commands :: "string option \<Rightarrow> string list" where
  "build_commands tag =
     [''git clone https://github.com/ava-labs/avalanche-cli.git'',
      ''cd avalanche-cli'',
      (case tag of
         Some t \<Rightarrow> if t \<noteq> [] then ''git checkout '' @ t else ''git checkout <desired-tag>''
       | None \<Rightarrow> ''git checkout <desired-tag>''),
      ''./scripts/build.sh'']"

definition build_payload :: "string option \<Rightarrow> json" where
  "build_payload tag =
     JObject [
       (''title'', JString ''Building Avalanche CLI from Source''),
       (''repository'', JString ''https://github.com/ava-labs/avalanche-cli''),
       (''steps'', JArray (map JString (build_steps tag))),
       (''commands'', JArray (map JString (build_commands tag))),
       (''output'', JObject [
          (''binary_location'', JString ''./bin/avalanche''),
          (''description'', JString (''The compiled binary will be named '' @ [squote]
              @ ''avalanche'' @ [squote] @ '' in the bin directory''))]),
       (''note'', JString ''Building from source allows you to use specific versions or contribute to development'')]"

definition getBuildFromSourceInfo :: "string option \<Rightarrow> tool_result io" where
  "getBuildFromSourceInfo tag = ret (text_result (JSON_stringify (build_payload tag)))"

section \<open>The dispatcher\<close>

text \<open>
  The arguments of a call, at the types the handlers declare for them; \<^verbatim>\<open>arguments\<close>
  itself may be missing, and so may each of its fields.
\<close>

record tool_args =
  force :: "bool option"
  shell :: "string option"
  tag :: "string option"

record request =
  name :: string
  arguments :: "tool_args option"

definition tool_names :: "string list" where
  "tool_names =
     [''check_compatibility'', ''install_avalanche_cli'', ''check_installation'',
      ''setup_path'', ''get_installation_info'', ''update_avalanche_cli'',
      ''build_from_source'']"

definition arg_force :: "tool_args option \<Rightarrow> bool" where
  \<comment> \<open>\<^verbatim>\<open>args?.force || false\<close>\<close>
  "arg_force a = (case a of None \<Rightarrow> False
                  | Some r \<Rightarrow> (case force r of None \<Rightarrow> False | Some b \<Rightarrow> b))"

definition arg_shell :: "tool_args option \<Rightarrow> string option" where
  "arg_shell a = (case a of None \<Rightarrow> None | Some r \<Rightarrow> shell r)"

definition arg_tag :: "tool_args option \<Rightarrow> string option" where
  "arg_tag a = (case a of None \<Rightarrow> None | Some r \<Rightarrow> tag r)"

text \<open>
  The \<^verbatim>\<open>switch\<close> on the name, inside the handler's \<^verbatim>\<open>try\<close>; the \<^verbatim>\<open>default\<close>
  branch throws from inside that \<^verbatim>\<open>try\<close> as well.
\<close>

definition call_tool_switch :: "host \<Rightarrow> request \<Rightarrow> tool_result io" where
  "call_tool_switch h req =
     (let args = arguments req in
      if name req = ''check_compatibility'' then checkCompatibility h
      else if name req = ''install_avalanche_cli'' then installAvalancheCLI h (arg_force args)
      else if name req = ''check_installation'' then checkInstallation h
      else if name req = ''setup_path'' then setupPath h (arg_shell args)
      else if name req = ''get_installation_info'' then getInstallationInfo
      else if name req = ''update_avalanche_cli'' then updateAvalancheCLI h
      else if name req = ''build_from_source'' then getBuildFromSourceInfo (arg_tag args)
      else throw (McpError MethodNotFound (''Unknown tool: '' @ name req)))"

definition call_tool :: "host \<Rightarrow> request \<Rightarrow> tool_result io" where
  "call_tool h req =
     try_catch (call_tool_switch h req)
       (\<lambda>error. throw (McpError InternalError (error_message error)))"

section \<open>Notions used to state the properties\<close>

definition config_content :: "host \<Rightarrow> world \<Rightarrow> path \<Rightarrow> string" where
  \<comment> \<open>what \<^verbatim>\<open>setupPath\<close> takes as the content of the configuration file: the text of
      the file, or the empty string when it cannot be read\<close>
  "config_content h w p =
     (case node_at (fs w) p of
        Some (File c) \<Rightarrow> if read_denied h p then [] else c
      | _ \<Rightarrow> [])"

text \<open>
  The text that follows the first occurrence of a marker in a line, and, for a list of
  lines, what follows \<^verbatim>\<open>git checkout \<close> in each line that has it: the tag (or the
  placeholder) that a step or a command refers to.
\<close>

fun after_marker :: "string \<Rightarrow> string \<Rightarrow> string option" where
  "after_marker m [] = (if m = [] then Some [] else None)"
| "after_marker m (c # cs) =
     (if prefix m (c # cs) then Some (drop (length m) (c # cs)) else after_marker m cs)"

definition checkout_refs :: "string list \<Rightarrow> string list" where
  "checkout_refs xs = List.map_filter (after_marker ''git checkout '') xs"

text \<open>
  A JSON text is one value with white space around it, and a value begins with a brace,
  a bracket, a double quote, a minus sign, a digit, or the first letter of
  \<^verbatim>\<open>true\<close>, \<^verbatim>\<open>false\<close> or \<^verbatim>\<open>null\<close>. A text that does not begin so is rejected by
  every JSON parser.
\<close>

definition json_whitespace :: "char \<Rightarrow> bool" where
  "json_whitespace c = (c = CHR '' '' \<or> c = CHR 0x09 \<or> c = CHR 0x0A \<or> c = CHR 0x0D)"

definition begins_json_value :: "string \<Rightarrow> bool" where
  "begins_json_value s =
     (case dropWhile json_whitespace s of
        [] \<Rightarrow> False
      | c # cs \<Rightarrow> c = dquote \<or> c \<in> set ''{[-0123456789tfn'')"

subsection \<open>A concrete host\<close>

text \<open>
  A Linux machine on which the tool is installed at \<^verbatim>\<open>/home/user/bin/avalanche\<close> and
  the network is down: the two probes answer, every other command fails and leaves the
  file system as it found it.
\<close>

definition example_shell ::
    "string \<Rightarrow> filesystem \<Rightarrow> (string + string \<times> string) \<times> filesystem" where
  "example_shell cmd f =
     (if cmd = ''which avalanche'' then (Inr (''/home/user/bin/avalanche'' @ [newline], []), f)
      else if cmd = ''avalanche --version'' then (Inr (''avalanche version 1.8.0'' @ [newline], []), f)
      else (Inl (''Command failed: '' @ cmd), f))"

definition example_host :: host where
  "example_host =
     \<lparr>os_platform = ''linux'', os_arch = ''x64'', os_homedir = [''home'', ''user''],
      env_SHELL = Some ''/bin/bash'', shell_run = example_shell,
      read_denied = (\<lambda>p. False), write_denied = (\<lambda>p. False)\<rparr>"

definition windows_host :: host where
  "windows_host = example_host\<lparr>os_platform := ''win32''\<rparr>"

definition freebsd_host :: host where
  "freebsd_host = example_host\<lparr>os_platform := ''freebsd''\<rparr>"


definition example_fs :: filesystem where
  "example_fs =
     [[''home''] \<mapsto> Dir,
      [''home'', ''user''] \<mapsto> Dir,
      [''home'', ''user'', ''bin''] \<mapsto> Dir,
      [''home'', ''user'', ''bin'', ''avalanche''] \<mapsto> File ''ELF'']"

definition example_world :: world where
  "example_world = \<lparr>fs = example_fs, trace = []\<rparr>"


definition fresh_world :: world where
  \<comment> \<open>a home directory with nothing in it\<close>
  "fresh_world = \<lparr>fs = [[''home''] \<mapsto> Dir, [''home'', ''user''] \<mapsto> Dir], trace = []\<rparr>"

section \<open>Basic facts\<close>

lemmas io_defs = ret_def throw_def bind_def try_catch_def

lemma fs_log [simp]: "fs (log e w) = fs w"
  by (simp add: log_def)

lemma trace_log [simp]: "trace (log e w) = trace w @ [e]"
  by (simp add: log_def)

lemma config_content_log [simp]: "config_content h (log e w) p = config_content h w p"
  by (simp add: config_content_def)

lemma stringify_at_head:
  "\<exists>c cs. stringify_at n v = c # cs
     \<and> c \<in> {CHR ''n'', CHR ''t'', CHR ''f'', dquote, CHR ''['', CHR ''{''}"
  by (cases v) (simp_all add: json_quote_def)

lemma stringify_begins_json_value: "begins_json_value (JSON_stringify v)"
  using stringify_at_head[of 0 v]
  by (auto simp add: JSON_stringify_def begins_json_value_def json_whitespace_def dquote_def)

lemma already_installed_text_no_json: "\<not> begins_json_value already_installed_text"
  by (simp add: begins_json_value_def already_installed_text_def json_whitespace_def dquote_def)










text \<open>
  A name that is neither in the table nor on \<^verbatim>\<open>Object.prototype\<close> is reported as
  unsupported, with the three keys of the table, and nothing is read or written.
\<close>

lemma unsupported_shell_text:
  "unsupported_shell s =
     text_result (JSON_stringify (JObject [
       (''success'', JBool False),
       (''error'', JString (''Unsupported shell: '' @ s)),
       (''supported_shells'', JArray [JString ''bash'', JString ''zsh'', JString ''fish''])]))"
  by (simp add: unsupported_shell_def shellConfigs_def)

lemma setupPath_undefined_entry:
  assumes "shellConfigs_get (detect_shell h a) = Undefined"
  shows "setupPath h a w = (Inr (unsupported_shell (detect_shell h a)), w)"
  using assms by (simp add: setupPath_def Let_def io_defs)

lemma setupPath_unsupported_name:
  assumes "s \<noteq> []"
    and "s \<notin> set (map fst shellConfigs)"
    and "s \<notin> set (map fst object_prototype)"
  shows "setupPath h (Some s) w = (Inr (unsupported_shell s), w)"
proof -
  have "map_of shellConfigs s = None" and "map_of object_prototype s = None"
    using assms by (simp_all add: map_of_eq_None_iff)
  then have "shellConfigs_get (detect_shell h (Some s)) = Undefined"
    using assms(1) by (simp add: detect_shell_def shellConfigs_get_def)
  then show ?thesis
    using setupPath_undefined_entry[of h "Some s" w] assms(1) by (simp add: detect_shell_def)
qed

text \<open>
  Every payload that reaches the caller is either the output of \<^verbatim>\<open>JSON.stringify\<close> or
  the sentence that the install handler returns when the tool is already installed.
\<close>

lemma install_payload_shape:
  "\<exists>t w'. installAvalancheCLI h f w = (Inr (text_result t), w')
      \<and> (t = already_installed_text \<or> (\<exists>v. t = JSON_stringify v))"
proof (cases "install_try h f w")
  case (Pair r w')
  show ?thesis
  proof (cases r)
    case (Inl e)
    with Pair show ?thesis
      by (auto simp add: installAvalancheCLI_def try_catch_def ret_def failure_payload_def)
  next
    case (Inr x)
    have "x = text_result already_installed_text \<or> (\<exists>out err. x = install_success out err)"
      using Pair Inr
      by (simp add: install_try_def io_defs Let_def split: if_splits prod.splits sum.splits)
         blast+
    with Pair Inr show ?thesis
      by (auto simp add: installAvalancheCLI_def try_catch_def ret_def install_success_def)
  qed
qed

lemma update_payload_shape:
  "\<exists>v w'. updateAvalancheCLI h w = (Inr (text_result (JSON_stringify v)), w')"
proof (cases "update_try h w")
  case (Pair r w')
  show ?thesis
  proof (cases r)
    case (Inl e)
    with Pair show ?thesis
      by (auto simp add: updateAvalancheCLI_def try_catch_def ret_def failure_payload_def)
  next
    case (Inr x)
    have "x = update_not_found \<or> (\<exists>a b c d. x = update_success a b c d)"
      using Pair Inr
      by (simp add: update_try_def io_defs Let_def split: if_splits prod.splits sum.splits)
         blast+
    with Pair Inr show ?thesis
      by (auto simp add: updateAvalancheCLI_def try_catch_def ret_def update_success_def
            update_not_found_def)
  qed
qed

lemma checkInstallation_payload_shape:
  "\<exists>v w'. checkInstallation h w = (Inr (text_result (JSON_stringify v)), w')"
  unfolding checkInstallation_def io_defs
  by (simp split: prod.splits sum.splits) blast

lemma setupPath_payload_shape:
  "setupPath h a w = (Inr r, w') \<Longrightarrow> \<exists>v. r = text_result (JSON_stringify v)"
  unfolding setupPath_def io_defs Let_def
  by (simp add: unsupported_shell_def path_already_set_def path_added_def failure_payload_def
        split: js_prop.splits prod.splits sum.splits if_splits)
     blast+

lemma call_tool_result:
  "call_tool h req w = (Inr r, w') \<Longrightarrow> call_tool_switch h req w = (Inr r, w')"
  by (simp add: call_tool_def try_catch_def throw_def split: prod.splits sum.splits)

lemma call_tool_payload_shape:
  assumes "call_tool h req w = (Inr r, w')"
  shows "\<exists>t. r = text_result t \<and> (t = already_installed_text \<or> (\<exists>v. t = JSON_stringify v))"
proof -
  from assms have sw: "call_tool_switch h req w = (Inr r, w')"
    by (rule call_tool_result)
  consider (compat) "checkCompatibility h w = (Inr r, w')"
    | (install) "installAvalancheCLI h (arg_force (arguments req)) w = (Inr r, w')"
    | (probe) "checkInstallation h w = (Inr r, w')"
    | (path) "setupPath h (arg_shell (arguments req)) w = (Inr r, w')"
    | (info) "getInstallationInfo w = (Inr r, w')"
    | (update) "updateAvalancheCLI h w = (Inr r, w')"
    | (build) "getBuildFromSourceInfo (arg_tag (arguments req)) w = (Inr r, w')"
    using sw by (simp add: call_tool_switch_def Let_def throw_def split: if_splits)
  then show ?thesis
  proof cases
    case compat
    then show ?thesis
      by (auto simp add: checkCompatibility_def Let_def ret_def)
  next
    case install
    with install_payload_shape[of h "arg_force (arguments req)" w] show ?thesis
      by auto
  next
    case probe
    with checkInstallation_payload_shape[of h w] show ?thesis
      by auto
  next
    case path
    from setupPath_payload_shape[OF this] show ?thesis
      by auto
  next
    case info
    then show ?thesis
      by (auto simp add: getInstallationInfo_def ret_def)
  next
    case update
    with update_payload_shape[of h w] show ?thesis
      by auto
  next
    case build
    then show ?thesis
      by (auto simp add: getBuildFromSourceInfo_def ret_def)
  qed
qed

section \<open>Properties of the dispatcher\<close>

text \<open>
  Claim C1 says that a request whose name is not one of the seven registered names fails
  with the method-not-found kind, and not with the internal-error kind. In the program
  the \<^verbatim>\<open>default\<close> branch does throw \<^verbatim>\<open>McpError(ErrorCode.MethodNotFound, ...)\<close>, but
  it throws inside the \<^verbatim>\<open>try\<close> whose \<^verbatim>\<open>catch\<close> wraps every error into
  \<^verbatim>\<open>McpError(ErrorCode.InternalError, error.message)\<close>. So for every unknown name the
  caller gets the internal-error kind; the unknown name survives only inside the
  message, behind the prefix of the error that was caught.
\<close>

theorem call_tool_unknown_name:
  assumes "name req \<notin> set tool_names"
  shows "call_tool h req w =
           (Inl (McpError InternalError (''MCP error -32601: Unknown tool: '' @ name req)), w)"
  using assms
  by (simp add: call_tool_def call_tool_switch_def tool_names_def io_defs)

theorem call_tool_unknown_name_witness:
  "name \<lparr>name = ''restart'', arguments = None\<rparr> \<notin> set tool_names
   \<and> call_tool example_host \<lparr>name = ''restart'', arguments = None\<rparr> example_world =
       (Inl (McpError InternalError ''MCP error -32601: Unknown tool: restart''), example_world)
   \<and> InternalError \<noteq> MethodNotFound"
proof -
  have unknown: "name \<lparr>name = ''restart'', arguments = None\<rparr> \<notin> set tool_names"
    by (simp add: tool_names_def)
  from call_tool_unknown_name[OF unknown, of example_host example_world] unknown
  show ?thesis by simp
qed

section \<open>Properties of check_compatibility\<close>

text \<open>
  Claim C4: for every platform and architecture the compatibility check returns a
  payload, never an error, and the field \<^verbatim>\<open>compatible\<close> of the payload is true exactly
  when the platform is \<^verbatim>\<open>linux\<close> or \<^verbatim>\<open>darwin\<close>. It neither reads nor changes the world.
\<close>

theorem checkCompatibility_total:
  "call_tool h \<lparr>name = ''check_compatibility'', arguments = a\<rparr> w =
     (Inr (text_result (JSON_stringify (JObject [
        (''compatible'', JBool (os_platform h = ''linux'' \<or> os_platform h = ''darwin'')),
        (''platform'', JString (os_platform h)),
        (''architecture'', JString (os_arch h)),
        (''message'', JString
           (if os_platform h = ''linux'' \<or> os_platform h = ''darwin''
            then ''Your system is compatible with Avalanche CLI''
            else ''Avalanche CLI currently supports Linux and macOS only. Windows is not supported.''))]))),
      w)"
  by (simp add: call_tool_def call_tool_switch_def checkCompatibility_def io_defs Let_def)

theorem checkCompatibility_total_witness:
  "call_tool windows_host \<lparr>name = ''check_compatibility'', arguments = None\<rparr> example_world =
     (Inr (text_result (JSON_stringify (JObject [
        (''compatible'', JBool False),
        (''platform'', JString ''win32''),
        (''architecture'', JString ''x64''),
        (''message'', JString
           ''Avalanche CLI currently supports Linux and macOS only. Windows is not supported.'')]))),
      example_world)"
  using checkCompatibility_total[of windows_host None example_world]
  by (simp add: windows_host_def example_host_def)

section \<open>Properties of install_avalanche_cli\<close>

text \<open>
  Claim C7 says that with \<^verbatim>\<open>force\<close> false and the tool resolvable on the command
  path the handler answers with the advice to use \<^verbatim>\<open>force\<close> or the update tool. The
  platform gate comes first: on a platform that is neither \<^verbatim>\<open>linux\<close> nor
  \<^verbatim>\<open>darwin\<close> the handler throws before it probes, and the answer is the failure payload
  of the gate, although \<^verbatim>\<open>which avalanche\<close> would have succeeded there. (Neither the
  directory nor the install script is touched in that case either.)
\<close>

theorem install_short_circuit_counterexample:
  "shell_run freebsd_host ''which avalanche'' (fs example_world) =
     (Inr (''/home/user/bin/avalanche'' @ [newline], []), example_fs)
   \<and> installAvalancheCLI freebsd_host False example_world =
       (Inr (text_result (JSON_stringify (JObject [
          (''success'', JBool False),
          (''error'', JString ''Avalanche CLI is not supported on this platform. Only Linux and macOS are supported.'')]))),
        example_world)
   \<and> \<not> (fst (installAvalancheCLI freebsd_host False example_world) =
            Inr (text_result already_installed_text))"
proof -
  have probe: "shell_run freebsd_host ''which avalanche'' (fs example_world) =
                 (Inr (''/home/user/bin/avalanche'' @ [newline], []), example_fs)"
    by (simp add: freebsd_host_def example_host_def example_shell_def example_world_def)
  have gate: "installAvalancheCLI freebsd_host False example_world =
       (Inr (text_result (JSON_stringify (JObject [
          (''success'', JBool False),
          (''error'', JString ''Avalanche CLI is not supported on this platform. Only Linux and macOS are supported.'')]))),
        example_world)"
    by (simp add: installAvalancheCLI_def install_try_def failure_payload_def io_defs
          freebsd_host_def example_host_def)
  have "\<not> begins_json_value already_installed_text"
    by (rule already_installed_text_no_json)
  then have "JSON_stringify v \<noteq> already_installed_text" for v
    using stringify_begins_json_value[of v] by auto
  then have "\<not> (fst (installAvalancheCLI freebsd_host False example_world) =
            Inr (text_result already_installed_text))"
    unfolding gate by (simp add: text_result_def)
  with probe gate show ?thesis
    by simp
qed

text \<open>
  Claim C7, amended: on \<^verbatim>\<open>linux\<close> or \<^verbatim>\<open>darwin\<close>, with \<^verbatim>\<open>force\<close> false, when
  \<^verbatim>\<open>which avalanche\<close> succeeds the handler returns at once with the text that advises
  \<^verbatim>\<open>force: true\<close> or the update tool. The only call it has made is that probe: the
  directory is neither tested nor created, and the install script is not run.
\<close>

theorem install_short_circuit:
  assumes "os_platform h = ''linux'' \<or> os_platform h = ''darwin''"
    and "shell_run h ''which avalanche'' (fs w) = (Inr out, f')"
  shows "installAvalancheCLI h False w =
           (Inr (text_result
              (''Avalanche CLI is already installed. Use '' @ [squote] @ ''force: true''
                 @ [squote] @ '' to reinstall or use the update tool.'')),
            \<lparr>fs = f', trace = trace w @ [Exec ''which avalanche'']\<rparr>)"
  using assms
  by (auto simp add: installAvalancheCLI_def install_try_def io_defs execAsync_def log_def
        already_installed_text_def)

theorem install_short_circuit_witness:
  "(os_platform example_host = ''linux'' \<or> os_platform example_host = ''darwin'')
   \<and> shell_run example_host ''which avalanche'' (fs example_world) =
       (Inr (''/home/user/bin/avalanche'' @ [newline], []), example_fs)
   \<and> installAvalancheCLI example_host False example_world =
       (Inr (text_result
          (''Avalanche CLI is already installed. Use '' @ [squote] @ ''force: true''
             @ [squote] @ '' to reinstall or use the update tool.'')),
        \<lparr>fs = example_fs, trace = [Exec ''which avalanche'']\<rparr>)"
proof -
  have platform: "os_platform example_host = ''linux'' \<or> os_platform example_host = ''darwin''"
    by (simp add: example_host_def)
  have probe: "shell_run example_host ''which avalanche'' (fs example_world) =
                 (Inr (''/home/user/bin/avalanche'' @ [newline], []), example_fs)"
    by (simp add: example_host_def example_shell_def example_world_def)
  from install_short_circuit[OF platform probe] platform probe
  show ?thesis by (simp add: example_world_def)
qed

text \<open>
  Claim C8: on a platform other than \<^verbatim>\<open>linux\<close> and \<^verbatim>\<open>darwin\<close> the install handler
  returns the payload \<^verbatim>\<open>{success: false, error: ...}\<close> that says the platform is not
  supported. The error thrown inside the handler is caught there, so the dispatcher
  receives a result, and the world is left as it was: no call to the file system or to
  the shell has been made, whatever \<^verbatim>\<open>force\<close> is.
\<close>

theorem install_unsupported_platform:
  assumes "os_platform h \<noteq> ''linux''" and "os_platform h \<noteq> ''darwin''"
  shows "installAvalancheCLI h frc w =
           (Inr (text_result (JSON_stringify (JObject [
              (''success'', JBool False),
              (''error'', JString ''Avalanche CLI is not supported on this platform. Only Linux and macOS are supported.'')]))),
            w)
         \<and> call_tool h \<lparr>name = ''install_avalanche_cli'', arguments = a\<rparr> w =
             installAvalancheCLI h (arg_force a) w"
  using assms
  by (simp add: call_tool_def call_tool_switch_def installAvalancheCLI_def install_try_def
        failure_payload_def io_defs)

theorem install_unsupported_platform_witness:
  "os_platform windows_host \<noteq> ''linux'' \<and> os_platform windows_host \<noteq> ''darwin''
   \<and> installAvalancheCLI windows_host True example_world =
       (Inr (text_result (JSON_stringify (JObject [
          (''success'', JBool False),
          (''error'', JString ''Avalanche CLI is not supported on this platform. Only Linux and macOS are supported.'')]))),
        example_world)"
proof -
  have p1: "os_platform windows_host \<noteq> ''linux''"
    by (simp add: windows_host_def)
  have p2: "os_platform windows_host \<noteq> ''darwin''"
    by (simp add: windows_host_def)
  from install_unsupported_platform[OF p1 p2, of True example_world None] p1 p2
  show ?thesis by simp
qed

section \<open>Properties of update_avalanche_cli\<close>

text \<open>
  Claim C9: when nothing exists at \<^verbatim>\<open>~/bin/avalanche\<close> the update handler returns the
  payload \<^verbatim>\<open>{success: false, error: "... not found ...", suggestion: ...}\<close>. The only
  call it has made is the existence test: nothing is deleted, no command is run, and the
  file system is the one it started with.
\<close>

theorem update_binary_absent:
  assumes "fs w (os_homedir h @ [''bin'', ''avalanche'']) = None"
  shows "updateAvalancheCLI h w =
           (Inr (text_result (JSON_stringify (JObject [
              (''success'', JBool False),
              (''error'', JString ''Avalanche CLI not found at ~/bin/avalanche''),
              (''suggestion'', JString ''Use install_avalanche_cli tool to install it first'')]))),
            \<lparr>fs = fs w, trace = trace w @ [Access (os_homedir h @ [''bin'', ''avalanche''])]\<rparr>)"
  using assms
  by (simp add: updateAvalancheCLI_def update_try_def update_not_found_def io_defs
        fs_access_def node_at_def log_def Let_def path_join_def)

theorem update_binary_absent_witness:
  "fs fresh_world (os_homedir example_host @ [''bin'', ''avalanche'']) = None
   \<and> updateAvalancheCLI example_host fresh_world =
       (Inr (text_result (JSON_stringify (JObject [
          (''success'', JBool False),
          (''error'', JString ''Avalanche CLI not found at ~/bin/avalanche''),
          (''suggestion'', JString ''Use install_avalanche_cli tool to install it first'')]))),
        \<lparr>fs = fs fresh_world, trace = [Access [''home'', ''user'', ''bin'', ''avalanche'']]\<rparr>)"
proof -
  have absent: "fs fresh_world (os_homedir example_host @ [''bin'', ''avalanche'']) = None"
    by (simp add: fresh_world_def example_host_def)
  from update_binary_absent[OF absent] absent
  show ?thesis by (simp add: fresh_world_def example_host_def)
qed

text \<open>
  Claim C10: the update is not atomic. When something exists at the path of the binary,
  and a file is there after the version probe, the handler deletes it and then runs the
  install script on the file system without it. If that command fails, the handler returns the payload
  \<^verbatim>\<open>{success: false, error: ...}\<close> and does nothing more: the file system it leaves is
  the one the failed command left, so the deletion is not undone.
\<close>

theorem update_not_atomic:
  assumes "fs w (os_homedir h @ [''bin'', ''avalanche'']) = Some n"
    and "shell_run h ''avalanche --version'' (fs w) = (rv, f1)"
    and "f1 (os_homedir h @ [''bin'', ''avalanche'']) = Some (File b1)"
    and "shell_run h installCommand (f1((os_homedir h @ [''bin'', ''avalanche'']) := None))
           = (Inl msg, f2)"
  shows "updateAvalancheCLI h w =
           (Inr (text_result (JSON_stringify (JObject [
              (''success'', JBool False),
              (''error'', JString msg)]))),
            \<lparr>fs = f2,
             trace = trace w @ [Access (os_homedir h @ [''bin'', ''avalanche'']),
                                Exec ''avalanche --version'',
                                Unlink (os_homedir h @ [''bin'', ''avalanche'']),
                                Exec installCommand]\<rparr>)"
  using assms
  by (cases rv)
     (auto simp add: updateAvalancheCLI_def update_try_def probe_version_def io_defs Let_def
        path_join_def fs_access_def fs_unlink_def execAsync_def node_at_def log_def
        failure_payload_def)

theorem update_not_atomic_witness:
  "fs example_world (os_homedir example_host @ [''bin'', ''avalanche'']) = Some (File ''ELF'')
   \<and> shell_run example_host installCommand
         (example_fs((os_homedir example_host @ [''bin'', ''avalanche'']) := None))
       = (Inl (''Command failed: '' @ installCommand),
          example_fs([''home'', ''user'', ''bin'', ''avalanche''] := None))
   \<and> updateAvalancheCLI example_host example_world =
       (Inr (text_result (JSON_stringify (JObject [
          (''success'', JBool False),
          (''error'', JString (''Command failed: '' @ installCommand))]))),
        \<lparr>fs = example_fs([''home'', ''user'', ''bin'', ''avalanche''] := None),
         trace = [Access [''home'', ''user'', ''bin'', ''avalanche''],
                  Exec ''avalanche --version'',
                  Unlink [''home'', ''user'', ''bin'', ''avalanche''],
                  Exec installCommand]\<rparr>)
   \<and> (example_fs([''home'', ''user'', ''bin'', ''avalanche''] := None))
         [''home'', ''user'', ''bin'', ''avalanche''] = None"
proof -
  have present:
    "fs example_world (os_homedir example_host @ [''bin'', ''avalanche'']) = Some (File ''ELF'')"
    by (simp add: example_world_def example_fs_def example_host_def)
  have version:
    "shell_run example_host ''avalanche --version'' (fs example_world) =
       (Inr (''avalanche version 1.8.0'' @ [newline], []), example_fs)"
    by (simp add: example_host_def example_shell_def example_world_def)
  have still:
    "example_fs (os_homedir example_host @ [''bin'', ''avalanche'']) = Some (File ''ELF'')"
    by (simp add: example_fs_def example_host_def)
  have install:
    "shell_run example_host installCommand
       (example_fs((os_homedir example_host @ [''bin'', ''avalanche'']) := None))
     = (Inl (''Command failed: '' @ installCommand),
        example_fs((os_homedir example_host @ [''bin'', ''avalanche'']) := None))"
    by (simp add: example_host_def example_shell_def installCommand_def)
  from update_not_atomic[OF present version still install] present install
  show ?thesis by (simp add: example_world_def example_host_def)
qed

section \<open>The payloads as JSON\<close>

text \<open>
  Claim C2 says that every payload a handler returns is serialized JSON. Every payload but
  one is built by \<^verbatim>\<open>JSON.stringify\<close>. The exception is the early return of the install
  handler: with \<^verbatim>\<open>force\<close> false and the tool resolvable it returns a bare English
  sentence. That sentence begins with the letter A, so it is not a JSON text, and no
  value serializes to it.
\<close>

theorem install_short_circuit_not_json:
  assumes "os_platform h = ''linux'' \<or> os_platform h = ''darwin''"
    and "shell_run h ''which avalanche'' (fs w) = (Inr out, f')"
  shows "fst (installAvalancheCLI h False w) = Inr (text_result already_installed_text)
         \<and> \<not> begins_json_value already_installed_text
         \<and> (\<forall>v. JSON_stringify v \<noteq> already_installed_text)"
proof -
  have "fst (installAvalancheCLI h False w) = Inr (text_result already_installed_text)"
    using assms
    by (auto simp add: installAvalancheCLI_def install_try_def io_defs execAsync_def)
  moreover have "JSON_stringify v \<noteq> already_installed_text" for v
    using stringify_begins_json_value[of v] already_installed_text_no_json by auto
  ultimately show ?thesis
    using already_installed_text_no_json by blast
qed

theorem install_short_circuit_not_json_witness:
  "(os_platform example_host = ''linux'' \<or> os_platform example_host = ''darwin'')
   \<and> fst (call_tool example_host \<lparr>name = ''install_avalanche_cli'', arguments = None\<rparr>
             example_world)
       = Inr (text_result already_installed_text)
   \<and> \<not> begins_json_value already_installed_text
   \<and> (\<forall>v. JSON_stringify v \<noteq> already_installed_text)"
proof -
  have platform: "os_platform example_host = ''linux'' \<or> os_platform example_host = ''darwin''"
    by (simp add: example_host_def)
  have probe: "shell_run example_host ''which avalanche'' (fs example_world) =
                 (Inr (''/home/user/bin/avalanche'' @ [newline], []), example_fs)"
    by (simp add: example_host_def example_shell_def example_world_def)
  have dispatch:
    "call_tool example_host \<lparr>name = ''install_avalanche_cli'', arguments = None\<rparr> example_world
       = installAvalancheCLI example_host False example_world"
    by (simp add: call_tool_def call_tool_switch_def arg_force_def installAvalancheCLI_def
          io_defs split: prod.splits sum.splits)
  from install_short_circuit_not_json[OF platform probe] platform dispatch
  show ?thesis by simp
qed

section \<open>Properties of build_from_source\<close>

lemma getBuildFromSourceInfo_lists:
  "getBuildFromSourceInfo a w =
     (Inr (text_result (JSON_stringify (JObject [
        (''title'', JString ''Building Avalanche CLI from Source''),
        (''repository'', JString ''https://github.com/ava-labs/avalanche-cli''),
        (''steps'', JArray (map JString (build_steps a))),
        (''commands'', JArray (map JString (build_commands a))),
        (''output'', JObject [
           (''binary_location'', JString ''./bin/avalanche''),
           (''description'', JString (''The compiled binary will be named '' @ [squote]
               @ ''avalanche'' @ [squote] @ '' in the bin directory''))]),
        (''note'', JString ''Building from source allows you to use specific versions or contribute to development'')]))),
      w)"
  by (simp add: getBuildFromSourceInfo_def build_payload_def io_defs)

text \<open>
  Claim C3 says that without a tag one placeholder is used, the same string in the steps
  and in the commands. The program writes \<^verbatim>\<open><tag>\<close> in the step and
  \<^verbatim>\<open><desired-tag>\<close> in the command. It also says that a supplied tag is
  substituted; a tag supplied as the empty string is not, the placeholders stand in
  its place.
\<close>

theorem build_from_source_placeholder_counterexample:
  "checkout_refs (build_steps None) = [''<tag>'']
   \<and> checkout_refs (build_commands None) = [''<desired-tag>'']
   \<and> \<not> (checkout_refs (build_steps None) = checkout_refs (build_commands None))
   \<and> \<not> (checkout_refs (build_commands (Some [])) = [[]])"
  by (simp add: checkout_refs_def build_steps_def build_commands_def List.map_filter_simps)

text \<open>
  Claim C3, amended: a tag that is not the empty string is what follows
  \<^verbatim>\<open>git checkout \<close> in the one step and in the one command that have a checkout. With no
  tag, and with the empty string, which JavaScript takes for false, the step has the
  placeholder \<^verbatim>\<open><tag>\<close> and the command has the placeholder \<^verbatim>\<open><desired-tag>\<close>.
\<close>

theorem build_from_source_tag:
  assumes "t \<noteq> []"
  shows "checkout_refs (build_steps (Some t)) = [t]
         \<and> checkout_refs (build_commands (Some t)) = [t]
         \<and> checkout_refs (build_steps None) = [''<tag>'']
         \<and> checkout_refs (build_commands None) = [''<desired-tag>'']
         \<and> checkout_refs (build_steps (Some [])) = [''<tag>'']
         \<and> checkout_refs (build_commands (Some [])) = [''<desired-tag>'']"
  using assms
  by (simp add: checkout_refs_def build_steps_def build_commands_def List.map_filter_simps)

theorem build_from_source_tag_witness:
  "''v1.2.3'' \<noteq> []
   \<and> checkout_refs (build_steps (Some ''v1.2.3'')) = [''v1.2.3'']
   \<and> checkout_refs (build_commands (Some ''v1.2.3'')) = [''v1.2.3'']
   \<and> build_steps (Some ''v1.2.3'') ! 2 = ''Checkout specific tag: git checkout v1.2.3''
   \<and> build_commands (Some ''v1.2.3'') ! 2 = ''git checkout v1.2.3''"
proof -
  have given: "''v1.2.3'' \<noteq> []"
    by simp
  from build_from_source_tag[OF given]
  show ?thesis by (simp add: build_steps_def build_commands_def)
qed

section \<open>Properties of setup_path\<close>

text \<open>
  Claim C6 says that every shell name outside the three supported ones is answered with
  the payload \<^verbatim>\<open>{success: false, ...}\<close> rather than with an exception. The test is
  \<^verbatim>\<open>if (!configFile)\<close> on \<^verbatim>\<open>shellConfigs[shell]\<close>, and for a name such as
  \<^verbatim>\<open>constructor\<close> that read finds an inherited function, which is not falsy. The
  handler goes on to \<^verbatim>\<open>path.join(homeDir, configFile)\<close>, which sits before the
  \<^verbatim>\<open>try\<close> and rejects an argument that is not a string: the handler throws, and the
  dispatcher turns the exception into a protocol error. Nothing is read or written.
\<close>

theorem setupPath_inherited_name_throws:
  "setupPath h (Some ''constructor'') w =
     (Inl (TypeError (''The '' @ [dquote] @ ''path'' @ [dquote]
             @ '' argument must be of type string. Received function Object'')), w)
   \<and> call_tool h \<lparr>name = ''setup_path'',
                   arguments = Some \<lparr>force = None, shell = Some ''constructor'', tag = None\<rparr>\<rparr> w =
       (Inl (McpError InternalError (''The '' @ [dquote] @ ''path'' @ [dquote]
               @ '' argument must be of type string. Received function Object'')), w)"
  by (simp add: call_tool_def call_tool_switch_def arg_shell_def setupPath_def detect_shell_def
        shellConfigs_get_def shellConfigs_def object_prototype_def invalid_path_argument_def
        io_defs Let_def)

theorem setupPath_inherited_name_throws_witness:
  "fst (setupPath example_host (Some ''constructor'') fresh_world) =
     Inl (TypeError (''The '' @ [dquote] @ ''path'' @ [dquote]
            @ '' argument must be of type string. Received function Object''))
   \<and> fst (setupPath example_host (Some ''powershell'') fresh_world) =
       Inr (text_result (JSON_stringify (JObject [
         (''success'', JBool False),
         (''error'', JString ''Unsupported shell: powershell''),
         (''supported_shells'', JArray [JString ''bash'', JString ''zsh'', JString ''fish''])])))"
proof -
  have "shellConfigs_get (detect_shell example_host (Some ''powershell'')) = Undefined"
    by (simp add: detect_shell_def shellConfigs_get_def shellConfigs_def object_prototype_def)
  then have "setupPath example_host (Some ''powershell'') fresh_world =
               (Inr (unsupported_shell ''powershell''), fresh_world)"
    using setupPath_undefined_entry[of example_host "Some ''powershell''" fresh_world]
    by (simp add: detect_shell_def)
  with setupPath_inherited_name_throws[of example_host fresh_world]
  show ?thesis by (simp add: unsupported_shell_text)
qed




end
